theory Spec2Isabelle
  imports Complex_Main
begin

section \<open>Shared data model\<close>

text \<open>
  Python floats are modelled as \<^typ>\<open>real\<close>, Python ints as \<^typ>\<open>int\<close>.  Every call of
  \<^verbatim>\<open>time.time()\<close> is an explicit argument of the function that makes it.
\<close>

subsection \<open>collections.deque with maxlen\<close>

text \<open>
  \<^verbatim>\<open>deque(maxlen=n)\<close>: appending to a full deque discards items from the left end.
\<close>

record 'a deque =
  items :: "'a list"
  maxlen :: nat

definition deque_new :: "nat \<Rightarrow> 'a deque" where
  "deque_new n = \<lparr>items = [], maxlen = n\<rparr>"

definition deque_append :: "'a deque \<Rightarrow> 'a \<Rightarrow> 'a deque" where
  "deque_append d x =
     d\<lparr>items := drop (length (items d @ [x]) - maxlen d) (items d @ [x])\<rparr>"

subsection \<open>Enumerations of core.definitions\<close>

text \<open>
  Modelled from the spec: the module \<^verbatim>\<open>core/definitions.py\<close> that declares the enumerations
  is not among the sources.  Each datatype lists the members that the code names; any further
  member of the enumeration is covered by the last constructor.
\<close>

datatype DriverState =
    SAFE | FATIGUE_LOW | FATIGUE_HIGH | DISTRACTION_NORMAL | DISTRACTION_DANGER
  | MULTIPLE_RISK | PHONE_USAGE | MICROSLEEP | EMOTIONAL_STRESS | PREDICTIVE_WARNING
  | OtherState nat

datatype AnalysisEvent =
    PHONE_USAGE_CONFIRMED | MICROSLEEP_PREDICTED | EMOTION_STRESS_DETECTED
  | PREDICTIVE_RISK_HIGH | FATIGUE_ACCUMULATION | ATTENTION_DECLINE
  | DISTRACTION_OBJECT_DETECTED | NORMAL_BEHAVIOR
  | OtherEvent nat

datatype EmotionState = FATIGUE | STRESS | ANGER | OtherEmotion nat


datatype GazeZone =
    FRONT | REARVIEW_MIRROR | LEFT_SIDE_MIRROR | RIGHT_SIDE_MIRROR | INSTRUMENT_CLUSTER
  | CENTER_STACK | FLOOR | ROOF | PASSENGER | DRIVER_WINDOW | BLIND_SPOT_LEFT
  | OtherZone nat

section \<open>core/state\_manager.py: EnhancedStateManager\<close>

record TransitionRecord =
  timestamp :: real
  from_state :: DriverState
  to_state :: DriverState
  trigger_event :: AnalysisEvent

record EnhancedStateManager =
  current_state :: DriverState
  state_start_time :: real
  state_history :: "TransitionRecord deque"

text \<open>\<^verbatim>\<open>__init__\<close>; \<open>now\<close> is the reading of the clock.\<close>

definition state_manager_init :: "real \<Rightarrow> EnhancedStateManager" where
  "state_manager_init now =
     \<lparr>current_state = SAFE, state_start_time = now, state_history = deque_new 100\<rparr>"

definition immediate_transitions :: "AnalysisEvent \<rightharpoonup> DriverState" where
  "immediate_transitions =
     [PHONE_USAGE_CONFIRMED \<mapsto> PHONE_USAGE,
      MICROSLEEP_PREDICTED \<mapsto> MICROSLEEP,
      EMOTION_STRESS_DETECTED \<mapsto> EMOTIONAL_STRESS,
      PREDICTIVE_RISK_HIGH \<mapsto> PREDICTIVE_WARNING]"

text \<open>\<^verbatim>\<open>_determine_enhanced_new_state\<close>; \<open>now\<close> is its one reading of the clock.\<close>

definition determine_enhanced_new_state ::
  "EnhancedStateManager \<Rightarrow> AnalysisEvent \<Rightarrow> real \<Rightarrow> DriverState" where
  "determine_enhanced_new_state s event now =
     (let current_duration = now - state_start_time s in
      case immediate_transitions event of
        Some st \<Rightarrow> st
      | None \<Rightarrow>
          if event = FATIGUE_ACCUMULATION then
            (if current_state s = FATIGUE_LOW then FATIGUE_HIGH else FATIGUE_LOW)
          else if event = ATTENTION_DECLINE then
            (if current_state s = DISTRACTION_NORMAL then DISTRACTION_DANGER
             else DISTRACTION_NORMAL)
          else if event = DISTRACTION_OBJECT_DETECTED then
            (if current_state s \<in> set [FATIGUE_HIGH, EMOTIONAL_STRESS] then MULTIPLE_RISK
             else DISTRACTION_DANGER)
          else if event = NORMAL_BEHAVIOR \<and> current_duration > 5.0 then SAFE
          else current_state s)"

text \<open>
  \<^verbatim>\<open>handle_event\<close>.  The source reads the clock three times: \<open>t1\<close> inside
  \<^verbatim>\<open>_determine_enhanced_new_state\<close>, \<open>t2\<close> for the record's timestamp and \<open>t3\<close> for the new
  state-start time.  The log line has no effect on the state.
\<close>

definition handle_event ::
  "EnhancedStateManager \<Rightarrow> AnalysisEvent \<Rightarrow> real \<Rightarrow> real \<Rightarrow> real \<Rightarrow> EnhancedStateManager" where
  "handle_event s event t1 t2 t3 =
     (let new_state = determine_enhanced_new_state s event t1 in
      if new_state \<noteq> current_state s then
        s\<lparr>state_history :=
             deque_append (state_history s)
               \<lparr>timestamp = t2, from_state = current_state s,
                to_state = new_state, trigger_event = event\<rparr>,
          current_state := new_state,
          state_start_time := t3\<rparr>
      else s)"

text \<open>A run of \<^verbatim>\<open>handle_event\<close> calls, each with its event and its three clock readings.\<close>

fun handle_events ::
  "EnhancedStateManager \<Rightarrow> (AnalysisEvent \<times> real \<times> real \<times> real) list \<Rightarrow> EnhancedStateManager"
  where
  "handle_events s [] = s"
| "handle_events s ((event, t1, t2, t3) # rest) =
     handle_events (handle_event s event t1 t2 t3) rest"

section \<open>analysis/engine.py: the result buffers of EnhancedAnalysisEngine\<close>

text \<open>
  The three attributes that the detector callbacks use: \<^verbatim>\<open>frame_buffer\<close> and
  \<^verbatim>\<open>result_buffer\<close> are dicts keyed by the timestamp in milliseconds, the entries of
  \<^verbatim>\<open>result_buffer\<close> are dicts keyed by the modality name, and
  \<^verbatim>\<open>processed_data_queue\<close> is a \<^verbatim>\<open>deque(maxlen=5)\<close> of pairs (frame, results).
  No function of the engine writes \<^verbatim>\<open>frame_buffer\<close>; its content is whatever the caller
  has stored there.
\<close>

record ('f, 'r) result_buffers =
  frame_buffer :: "int \<rightharpoonup> 'f"
  result_buffer :: "int \<rightharpoonup> (string \<rightharpoonup> 'r)"
  processed_data_queue :: "('f \<times> (string \<rightharpoonup> 'r)) deque"

definition result_buffers_init :: "('f, 'r) result_buffers" where
  "result_buffers_init =
     \<lparr>frame_buffer = Map.empty, result_buffer = Map.empty,
      processed_data_queue = deque_new 5\<rparr>"

text \<open>Python's \<^verbatim>\<open>int(x)\<close> on a float truncates towards zero.\<close>

definition py_int :: "real \<Rightarrow> int" where
  "py_int x = (if 0 \<le> x then \<lfloor>x\<rfloor> else \<lceil>x\<rceil>)"

text \<open>\<^verbatim>\<open>_prune_buffers\<close>; \<open>now\<close> is the reading of \<^verbatim>\<open>time.time()\<close>.\<close>

definition prune_buffers :: "('f, 'r) result_buffers \<Rightarrow> real \<Rightarrow> ('f, 'r) result_buffers" where
  "prune_buffers s now =
     (let current_time_ms = py_int (now * 1000);
          stale = (\<lambda>ts. frame_buffer s ts \<noteq> None \<and> current_time_ms - ts > 2000)
      in s\<lparr>frame_buffer := (\<lambda>ts. if stale ts then None else frame_buffer s ts),
            result_buffer := (\<lambda>ts. if stale ts then None else result_buffer s ts)\<rparr>)"

text \<open>\<^verbatim>\<open>_try_queue_results\<close>: both \<^verbatim>\<open>pop\<close> calls have the default \<^verbatim>\<open>None\<close>.\<close>

definition try_queue_results ::
  "('f, 'r) result_buffers \<Rightarrow> int \<Rightarrow> real \<Rightarrow> ('f, 'r) result_buffers" where
  "try_queue_results s timestamp_ms now =
     (case result_buffer s timestamp_ms of
        None \<Rightarrow> s
      | Some entry \<Rightarrow>
          if entry ''face'' \<noteq> None \<and> entry ''pose'' \<noteq> None then
            (let frame = frame_buffer s timestamp_ms;
                 results = result_buffer s timestamp_ms;
                 s1 = s\<lparr>frame_buffer := (frame_buffer s)(timestamp_ms := None),
                        result_buffer := (result_buffer s)(timestamp_ms := None)\<rparr>;
                 s2 = (case (frame, results) of
                         (Some f, Some r) \<Rightarrow>
                           s1\<lparr>processed_data_queue :=
                                deque_append (processed_data_queue s1) (f, r)\<rparr>
                       | _ \<Rightarrow> s1)
             in prune_buffers s2 now)
          else s)"

text \<open>
  The four callbacks.  Each creates the entry of the timestamp when it is absent and stores its
  result under its modality name; the image argument is not used.  Only the face and the pose
  callback go on to \<^verbatim>\<open>_try_queue_results\<close>.
\<close>

definition on_face_result ::
  "('f, 'r) result_buffers \<Rightarrow> 'r \<Rightarrow> 'i \<Rightarrow> int \<Rightarrow> real \<Rightarrow> ('f, 'r) result_buffers" where
  "on_face_result s result img timestamp_ms now =
     (let entry = (case result_buffer s timestamp_ms of None \<Rightarrow> Map.empty | Some e \<Rightarrow> e);
          s1 = s\<lparr>result_buffer := (result_buffer s)(timestamp_ms \<mapsto> entry(''face'' \<mapsto> result))\<rparr>
      in try_queue_results s1 timestamp_ms now)"

definition on_pose_result ::
  "('f, 'r) result_buffers \<Rightarrow> 'r \<Rightarrow> 'i \<Rightarrow> int \<Rightarrow> real \<Rightarrow> ('f, 'r) result_buffers" where
  "on_pose_result s result img timestamp_ms now =
     (let entry = (case result_buffer s timestamp_ms of None \<Rightarrow> Map.empty | Some e \<Rightarrow> e);
          s1 = s\<lparr>result_buffer := (result_buffer s)(timestamp_ms \<mapsto> entry(''pose'' \<mapsto> result))\<rparr>
      in try_queue_results s1 timestamp_ms now)"

definition on_hand_result ::
  "('f, 'r) result_buffers \<Rightarrow> 'r \<Rightarrow> 'i \<Rightarrow> int \<Rightarrow> ('f, 'r) result_buffers" where
  "on_hand_result s result img timestamp_ms =
     (let entry = (case result_buffer s timestamp_ms of None \<Rightarrow> Map.empty | Some e \<Rightarrow> e)
      in s\<lparr>result_buffer := (result_buffer s)(timestamp_ms \<mapsto> entry(''hand'' \<mapsto> result))\<rparr>)"

definition on_object_result ::
  "('f, 'r) result_buffers \<Rightarrow> 'r \<Rightarrow> 'i \<Rightarrow> int \<Rightarrow> ('f, 'r) result_buffers" where
  "on_object_result s result img timestamp_ms =
     (let entry = (case result_buffer s timestamp_ms of None \<Rightarrow> Map.empty | Some e \<Rightarrow> e)
      in s\<lparr>result_buffer := (result_buffer s)(timestamp_ms \<mapsto> entry(''object'' \<mapsto> result))\<rparr>)"

section \<open>analysis/engine.py: CounterBasedAnalyzer\<close>














section \<open>analysis/engine.py: EnhancedMultiModalAnalyzer\<close>

text \<open>
  The dicts that the fusion functions read with \<^verbatim>\<open>.get\<close>.  Field \<open>k_name\<close> is the key
  \<^verbatim>\<open>"name"\<close>; \<open>None\<close> says that the dict has no such key.
\<close>

record signal_dict =
  k_available :: "bool option"
  k_perclos :: "real option"
  k_enhanced_ear :: "real option"
  k_temporal_attention_score :: "real option"
  k_gaze_deviation_score :: "real option"
  k_attention_focus_score :: "real option"
  k_head_nod_score :: "real option"
  k_pose_complexity_score :: "real option"
  k_hands_on_wheel_confidence :: "real option"
  k_distraction_score :: "real option"
  k_phone_usage_score :: "real option"
  k_emotion :: "EmotionState option"
  k_confidence :: "real option"
  k_arousal :: "real option"
  k_valence :: "real option"

definition empty_dict :: signal_dict where
  "empty_dict =
     \<lparr>k_available = None, k_perclos = None, k_enhanced_ear = None,
      k_temporal_attention_score = None, k_gaze_deviation_score = None,
      k_attention_focus_score = None, k_head_nod_score = None,
      k_pose_complexity_score = None, k_hands_on_wheel_confidence = None,
      k_distraction_score = None, k_phone_usage_score = None, k_emotion = None,
      k_confidence = None, k_arousal = None, k_valence = None\<rparr>"

text \<open>\<^verbatim>\<open>d.get(key, default)\<close>, and the truth value of \<^verbatim>\<open>d.get("available")\<close>.\<close>

definition dget :: "'a option \<Rightarrow> 'a \<Rightarrow> 'a" where
  "dget v dflt = (case v of None \<Rightarrow> dflt | Some a \<Rightarrow> a)"

definition truthy :: "bool option \<Rightarrow> bool" where
  "truthy v = (case v of None \<Rightarrow> False | Some b \<Rightarrow> b)"

record modality_weights =
  w_face :: real
  w_pose :: real
  w_hand :: real
  w_object :: real
  w_emotion :: real

record EnhancedMultiModalAnalyzer =
  weights :: modality_weights


text \<open>
  The per-modality values that \<^verbatim>\<open>fuse_drowsiness_signals\<close> computes, each under the name
  of its local variable.
\<close>

definition face_drowsiness :: "signal_dict \<Rightarrow> real" where
  "face_drowsiness face_data =
     dget (k_perclos face_data) 0 * 0.4 + dget (k_enhanced_ear face_data) 0 * 0.3
       + dget (k_temporal_attention_score face_data) 0 * 0.3"

definition pose_drowsiness :: "signal_dict \<Rightarrow> real" where
  "pose_drowsiness pose_data = dget (k_head_nod_score pose_data) 0"



text \<open>The same for \<^verbatim>\<open>fuse_distraction_signals\<close>.\<close>

definition face_distraction :: "signal_dict \<Rightarrow> real" where
  "face_distraction face_data =
     (let gaze_score = dget (k_gaze_deviation_score face_data) 0;
          attention_score = 1.0 - dget (k_attention_focus_score face_data) 1.0
      in max gaze_score attention_score)"

definition hand_distraction :: "signal_dict \<Rightarrow> real" where
  "hand_distraction hand_data = 1.0 - dget (k_hands_on_wheel_confidence hand_data) 1.0"

definition object_distraction :: "signal_dict \<Rightarrow> real" where
  "object_distraction object_data = dget (k_distraction_score object_data) 0"

definition emotion_distraction :: "signal_dict \<Rightarrow> real" where
  "emotion_distraction emotion_data =
     (if k_emotion emotion_data \<in> set [Some STRESS, Some ANGER] then
        dget (k_confidence emotion_data) 0
      else 0.0)"


section \<open>analysis/engine.py: fusion and risk in EnhancedAnalysisEngine\<close>


text \<open>
  The entries of \<^verbatim>\<open>latest_results["hand_positions"]\<close>, read with
  \<^verbatim>\<open>hand.get("x", 0.5)\<close> and \<^verbatim>\<open>hand.get("y", 0.5)\<close>, and the values of
  \<^verbatim>\<open>latest_results\<close>: a detector result, the list of hand positions, or a number.
\<close>

record hand_position =
  hp_handedness :: string
  hp_x :: "real option"
  hp_y :: "real option"

datatype lr_value = DetectorResult | HandPositions "hand_position list" | Number real















section \<open>Double-precision arithmetic\<close>

text \<open>
  Python's \<^verbatim>\<open>float\<close> is the IEEE 754 binary64 format, and every \<^verbatim>\<open>+\<close>, \<^verbatim>\<open>-\<close>, \<^verbatim>\<open>*\<close> and
  \<^verbatim>\<open>/\<close> on floats returns the exact result rounded to the nearest double, ties to the even
  significand.  A double is a real number here, and \<open>fl\<close> is that rounding: \<open>binade\<close> finds the
  exponent \<open>e\<close> with \<open>2 powi e \<le> \<bar>x\<bar> < 2 powi (e + 1)\<close> (by at most 1100 halvings or doublings),
  \<open>ulp\<close> is the spacing of the doubles around \<open>x\<close> (52 fraction bits, subnormal below
  \<open>2 powi (- 1022)\<close>), and \<open>fl x\<close> is the multiple of \<open>ulp x\<close> nearest to \<open>x\<close>.  Overflow to
  infinity is not part of the model: a result of magnitude \<open>2 powi 1024\<close> or more is rounded as
  if the exponent range were unbounded above.
\<close>

definition round_half_even :: "real \<Rightarrow> int" where
  "round_half_even y =
     (let f = \<lfloor>y\<rfloor>; r = y - of_int f
      in if r < 1 / 2 then f else if 1 / 2 < r then f + 1 else if even f then f else f + 1)"

fun binade :: "nat \<Rightarrow> real \<Rightarrow> int" where
  "binade 0 x = 0"
| "binade (Suc n) x =
     (if x < 1 then binade n (2 * x) - 1
      else if 2 \<le> x then binade n (x / 2) + 1
      else 0)"

definition ulp :: "real \<Rightarrow> real" where
  "ulp x = 2 powi (max (binade 1100 \<bar>x\<bar>) (- 1022) - 52)"

definition fl :: "real \<Rightarrow> real" where
  "fl x = (if x = 0 then 0 else of_int (round_half_even (x / ulp x)) * ulp x)"

section \<open>analysis/engine.py: the fusion in double precision\<close>

text \<open>
  The analyzer and its two fusion functions once more, with every float literal and every
  arithmetic operation of the source rounded by \<open>fl\<close>, in the order in which Python evaluates
  them.  The values read from the dicts are doubles already.  \<^verbatim>\<open>pose_drowsiness\<close>,
  \<^verbatim>\<open>object_distraction\<close> and \<^verbatim>\<open>emotion_distraction\<close> do no arithmetic and are shared with
  the definitions above.
\<close>

definition multimodal_analyzer_init_fl :: EnhancedMultiModalAnalyzer where
  "multimodal_analyzer_init_fl =
     \<lparr>weights = \<lparr>w_face = fl 0.35, w_pose = fl 0.25, w_hand = fl 0.20, w_object = fl 0.10,
                  w_emotion = fl 0.10\<rparr>\<rparr>"

definition face_drowsiness_fl :: "signal_dict \<Rightarrow> real" where
  "face_drowsiness_fl face_data =
     fl (fl (fl (dget (k_perclos face_data) 0 * fl 0.4)
             + fl (dget (k_enhanced_ear face_data) 0 * fl 0.3))
         + fl (dget (k_temporal_attention_score face_data) 0 * fl 0.3))"

definition emotion_fatigue_fl :: "signal_dict \<Rightarrow> real" where
  "emotion_fatigue_fl emotion_data =
     (if k_emotion emotion_data = Some FATIGUE then dget (k_confidence emotion_data) 0
      else if dget (k_arousal emotion_data) 0.5 < fl 0.3 then
        fl (1.0 - dget (k_arousal emotion_data) 0.5)
      else 0.0)"

definition fuse_drowsiness_signals_fl ::
  "EnhancedMultiModalAnalyzer \<Rightarrow> signal_dict \<Rightarrow> signal_dict \<Rightarrow> signal_dict \<Rightarrow> real" where
  "fuse_drowsiness_signals_fl self face_data pose_data emotion_data =
     (let (score, total_weight) = (0.0, 0.0);
          (score, total_weight) =
            (if truthy (k_available face_data) then
               (fl (score + fl (face_drowsiness_fl face_data * w_face (weights self))),
                fl (total_weight + w_face (weights self)))
             else (score, total_weight));
          (score, total_weight) =
            (if truthy (k_available pose_data) then
               (fl (score + fl (pose_drowsiness pose_data * w_pose (weights self))),
                fl (total_weight + w_pose (weights self)))
             else (score, total_weight));
          (score, total_weight) =
            (if truthy (k_available emotion_data) then
               (fl (score + fl (emotion_fatigue_fl emotion_data * w_emotion (weights self))),
                fl (total_weight + w_emotion (weights self)))
             else (score, total_weight))
      in if total_weight > 0 then fl (score / total_weight) else 0.0)"

definition face_distraction_fl :: "signal_dict \<Rightarrow> real" where
  "face_distraction_fl face_data =
     (let gaze_score = dget (k_gaze_deviation_score face_data) 0;
          attention_score = fl (1.0 - dget (k_attention_focus_score face_data) 1.0)
      in max gaze_score attention_score)"

definition hand_distraction_fl :: "signal_dict \<Rightarrow> real" where
  "hand_distraction_fl hand_data =
     fl (1.0 - dget (k_hands_on_wheel_confidence hand_data) 1.0)"

definition fuse_distraction_signals_fl ::
  "EnhancedMultiModalAnalyzer \<Rightarrow> signal_dict \<Rightarrow> signal_dict \<Rightarrow> signal_dict \<Rightarrow> signal_dict
     \<Rightarrow> real" where
  "fuse_distraction_signals_fl self face_data hand_data object_data emotion_data =
     (let (score, total_weight) = (0.0, 0.0);
          (score, total_weight) =
            (if truthy (k_available face_data) then
               (fl (score + fl (face_distraction_fl face_data * w_face (weights self))),
                fl (total_weight + w_face (weights self)))
             else (score, total_weight));
          (score, total_weight) =
            (if truthy (k_available hand_data) then
               (fl (score + fl (hand_distraction_fl hand_data * w_hand (weights self))),
                fl (total_weight + w_hand (weights self)))
             else (score, total_weight));
          (score, total_weight) =
            (if truthy (k_available object_data) then
               (fl (score + fl (object_distraction object_data * w_object (weights self))),
                fl (total_weight + w_object (weights self)))
             else (score, total_weight));
          (score, total_weight) =
            (if truthy (k_available emotion_data) then
               (fl (score + fl (emotion_distraction emotion_data * w_emotion (weights self))),
                fl (total_weight + w_emotion (weights self)))
             else (score, total_weight))
      in if total_weight > 0 then fl (score / total_weight) else 0.0)"

text \<open>
  What the fusion computes from one raw score \<open>s\<close> and its weight \<open>w\<close> when no other modality is
  available: the rounded product divided by the weight, rounded again.  A weight is usable when
  it is a double in \<open>[2 powi (- 20), 1]\<close>; a score is usable when it is 0 or of a magnitude in
  \<open>[2 powi (- 1000), 2 powi 1000]\<close>, so that neither the product nor the quotient leaves the
  range of the normal doubles.
\<close>

definition renormalized :: "real \<Rightarrow> real \<Rightarrow> real" where
  "renormalized s w = fl (fl (s * w) / w)"

definition usable_weight :: "real \<Rightarrow> bool" where
  "usable_weight w = (fl w = w \<and> 2 powi (- 20) \<le> w \<and> w \<le> 1)"

definition usable_score :: "real \<Rightarrow> bool" where
  "usable_score s = (s = 0 \<or> 2 powi (- 1000) \<le> \<bar>s\<bar> \<and> \<bar>s\<bar> \<le> 2 powi 1000)"

section \<open>Example inputs\<close>





section \<open>Properties of the state machine\<close>

lemma immediate_transitions_NORMAL: "immediate_transitions NORMAL_BEHAVIOR = None"
  by (simp add: immediate_transitions_def)

lemma immediate_transitions_Other: "immediate_transitions (OtherEvent n) = None"
  by (simp add: immediate_transitions_def)

lemma immediate_transitions_FATIGUE: "immediate_transitions FATIGUE_ACCUMULATION = None"
  by (simp add: immediate_transitions_def)

lemma immediate_transitions_ATTENTION: "immediate_transitions ATTENTION_DECLINE = None"
  by (simp add: immediate_transitions_def)

lemma determine_NORMAL:
  "determine_enhanced_new_state s NORMAL_BEHAVIOR now =
     (if now - state_start_time s > 5 then SAFE else current_state s)"
  by (simp add: determine_enhanced_new_state_def immediate_transitions_NORMAL)

lemma determine_Other:
  "determine_enhanced_new_state s (OtherEvent n) now = current_state s"
  by (simp add: determine_enhanced_new_state_def immediate_transitions_Other)

lemma handle_event_unchanged:
  "determine_enhanced_new_state s event ta = current_state s \<Longrightarrow>
   handle_event s event ta tb tc = s"
  by (simp add: handle_event_def)

lemma handle_events_NORMAL_in_SAFE:
  "current_state s = SAFE \<Longrightarrow>
   handle_events s (map (\<lambda>(ua, ub, uc). (NORMAL_BEHAVIOR, ua, ub, uc)) clock) = s"
proof (induction clock)
  case Nil
  then show ?case by simp
next
  case (Cons c clock)
  obtain ua ub uc where c: "c = (ua, ub, uc)" by (cases c) auto
  have "handle_event s NORMAL_BEHAVIOR ua ub uc = s"
    using Cons.prems by (intro handle_event_unchanged) (simp add: determine_NORMAL)
  with Cons c show ?case by simp
qed

text \<open>
  C4.  A NORMAL\_BEHAVIOR event delivered while the current state has lasted at most 5.0 s
  (the clock reading \<open>ta\<close> of the transition function minus the state-start time), and any
  unrecognized event at any time, return the state manager unchanged: state, history and
  state-start time.  Once the duration exceeds 5.0 s, NORMAL\_BEHAVIOR from a state other than
  SAFE sets the state to SAFE, appends the one record of this transition to the history (a
  deque of at most \<open>maxlen\<close> records, 100 in the constructor) and resets the state-start time;
  any run of further NORMAL\_BEHAVIOR events, whatever the clock reads, changes nothing more.
\<close>

theorem handle_event_hysteresis:
  "(ta - state_start_time s \<le> 5 \<longrightarrow> handle_event s NORMAL_BEHAVIOR ta tb tc = s)
   \<and> handle_event s (OtherEvent n) ta tb tc = s
   \<and> (ta - state_start_time s > 5 \<and> current_state s \<noteq> SAFE \<longrightarrow>
        handle_event s NORMAL_BEHAVIOR ta tb tc =
          s\<lparr>state_history :=
               deque_append (state_history s)
                 \<lparr>timestamp = tb, from_state = current_state s, to_state = SAFE,
                  trigger_event = NORMAL_BEHAVIOR\<rparr>,
            current_state := SAFE, state_start_time := tc\<rparr>
        \<and> length (items (state_history (handle_event s NORMAL_BEHAVIOR ta tb tc)))
            = min (maxlen (state_history s)) (Suc (length (items (state_history s))))
        \<and> handle_events (handle_event s NORMAL_BEHAVIOR ta tb tc)
            (map (\<lambda>(ua, ub, uc). (NORMAL_BEHAVIOR, ua, ub, uc)) clock)
          = handle_event s NORMAL_BEHAVIOR ta tb tc)"
proof (intro conjI impI)
  assume "ta - state_start_time s \<le> 5"
  then show "handle_event s NORMAL_BEHAVIOR ta tb tc = s"
    by (intro handle_event_unchanged) (simp add: determine_NORMAL)
next
  show "handle_event s (OtherEvent n) ta tb tc = s"
    by (intro handle_event_unchanged) (simp add: determine_Other)
next
  assume a: "ta - state_start_time s > 5 \<and> current_state s \<noteq> SAFE"
  then show eq: "handle_event s NORMAL_BEHAVIOR ta tb tc =
          s\<lparr>state_history :=
               deque_append (state_history s)
                 \<lparr>timestamp = tb, from_state = current_state s, to_state = SAFE,
                  trigger_event = NORMAL_BEHAVIOR\<rparr>,
            current_state := SAFE, state_start_time := tc\<rparr>"
    by (auto simp: handle_event_def determine_NORMAL)
  show "length (items (state_history (handle_event s NORMAL_BEHAVIOR ta tb tc)))
            = min (maxlen (state_history s)) (Suc (length (items (state_history s))))"
    by (simp add: eq deque_append_def)
  have "current_state (handle_event s NORMAL_BEHAVIOR ta tb tc) = SAFE"
    by (simp add: eq)
  then show "handle_events (handle_event s NORMAL_BEHAVIOR ta tb tc)
            (map (\<lambda>(ua, ub, uc). (NORMAL_BEHAVIOR, ua, ub, uc)) clock)
          = handle_event s NORMAL_BEHAVIOR ta tb tc"
    by (rule handle_events_NORMAL_in_SAFE)
qed

text \<open>
  The hysteresis at work on a manager that entered FATIGUE\_HIGH at time 0: at 4.9 s nothing
  changes, at 5.1 s the state is SAFE with one record, and two more events leave it so.
\<close>

theorem handle_event_hysteresis_witness:
  "(4.9::real) - 0 \<le> 5 \<and> (5.1::real) - 0 > 5 \<and> FATIGUE_HIGH \<noteq> SAFE
   \<and> handle_event
       \<lparr>current_state = FATIGUE_HIGH, state_start_time = 0, state_history = deque_new 100\<rparr>
       NORMAL_BEHAVIOR 4.9 4.9 4.9
     = \<lparr>current_state = FATIGUE_HIGH, state_start_time = 0, state_history = deque_new 100\<rparr>
   \<and> handle_events
       (handle_event
          \<lparr>current_state = FATIGUE_HIGH, state_start_time = 0, state_history = deque_new 100\<rparr>
          NORMAL_BEHAVIOR 5.1 5.2 5.3)
       (map (\<lambda>(ua, ub, uc). (NORMAL_BEHAVIOR, ua, ub, uc)) [(6, 6, 6), (20, 20, 20)])
     = \<lparr>current_state = SAFE, state_start_time = 5.3,
        state_history =
          \<lparr>items = [\<lparr>timestamp = 5.2, from_state = FATIGUE_HIGH, to_state = SAFE,
                      trigger_event = NORMAL_BEHAVIOR\<rparr>],
           maxlen = 100\<rparr>\<rparr>"
proof -
  let ?s = "\<lparr>current_state = FATIGUE_HIGH, state_start_time = 0,
             state_history = deque_new 100\<rparr>"
  have short: "(4.9::real) - state_start_time ?s \<le> 5"
    by simp
  have long: "(5.1::real) - state_start_time ?s > 5 \<and> current_state ?s \<noteq> SAFE"
    by simp
  note at_short = handle_event_hysteresis [where s = ?s and ta = "4.9" and tb = "4.9"
      and tc = "4.9" and n = 0 and clock = "[]", THEN conjunct1, THEN mp, OF short]
  note at_long = handle_event_hysteresis [where s = ?s and ta = "5.1" and tb = "5.2"
      and tc = "5.3" and n = 0 and clock = "[(6, 6, 6), (20, 20, 20)]",
      THEN conjunct2, THEN conjunct2, THEN mp, OF long]
  have late: "handle_event ?s NORMAL_BEHAVIOR 5.1 5.2 5.3 =
        \<lparr>current_state = SAFE, state_start_time = 5.3,
         state_history =
           \<lparr>items = [\<lparr>timestamp = 5.2, from_state = FATIGUE_HIGH, to_state = SAFE,
                       trigger_event = NORMAL_BEHAVIOR\<rparr>],
            maxlen = 100\<rparr>\<rparr>"
    unfolding at_long [THEN conjunct1] by (simp add: deque_new_def deque_append_def)
  have after: "handle_events (handle_event ?s NORMAL_BEHAVIOR 5.1 5.2 5.3)
        (map (\<lambda>(ua, ub, uc). (NORMAL_BEHAVIOR, ua, ub, uc)) [(6, 6, 6), (20, 20, 20)])
      = handle_event ?s NORMAL_BEHAVIOR 5.1 5.2 5.3"
    by (rule at_long [THEN conjunct2, THEN conjunct2])
  show ?thesis
    by (intro conjI at_short trans [OF after late]) simp_all
qed

text \<open>
  C5.  From every current state, FATIGUE\_ACCUMULATION leads to FATIGUE\_HIGH when the current
  state is FATIGUE\_LOW and to FATIGUE\_LOW otherwise (also from FATIGUE\_HIGH);
  ATTENTION\_DECLINE leads to DISTRACTION\_DANGER when the current state is DISTRACTION\_NORMAL
  and to DISTRACTION\_NORMAL otherwise.
\<close>

theorem toggle_transitions:
  "current_state (handle_event s FATIGUE_ACCUMULATION ta tb tc) =
     (if current_state s = FATIGUE_LOW then FATIGUE_HIGH else FATIGUE_LOW)
   \<and> current_state (handle_event s ATTENTION_DECLINE ta tb tc) =
     (if current_state s = DISTRACTION_NORMAL then DISTRACTION_DANGER else DISTRACTION_NORMAL)"
  by (simp add: handle_event_def determine_enhanced_new_state_def
      immediate_transitions_FATIGUE immediate_transitions_ATTENTION)

section \<open>Properties of the risk level\<close>


section \<open>Properties of the result buffers\<close>

lemma queue_prune_buffers:
  "processed_data_queue (prune_buffers s now) = processed_data_queue s"
  by (simp add: prune_buffers_def Let_def)

lemma queue_try_queue_results:
  "processed_data_queue (try_queue_results s ts now) =
     (case (result_buffer s ts, frame_buffer s ts) of
        (Some e, Some f) \<Rightarrow>
          if e ''face'' \<noteq> None \<and> e ''pose'' \<noteq> None
          then deque_append (processed_data_queue s) (f, e)
          else processed_data_queue s
      | _ \<Rightarrow> processed_data_queue s)"
  by (simp add: try_queue_results_def queue_prune_buffers Let_def split: option.splits)

text \<open>
  C3, as the claim states it, fails: on the empty buffers a face result and then a pose result
  for timestamp 1000 leave the output queue empty, because no frame is stored for 1000; the
  entry of 1000 is dropped from the result buffer all the same.
\<close>

theorem emission_without_frame_counterexample:
  "(case result_buffer (on_face_result (result_buffers_init :: (nat, nat) result_buffers)
       1 () 1000 1) 1000 of None \<Rightarrow> False | Some e \<Rightarrow> e ''face'' = Some 1)
   \<and> items (processed_data_queue
        (on_pose_result (on_face_result (result_buffers_init :: (nat, nat) result_buffers)
           1 () 1000 1) 2 () 1000 1)) = []
   \<and> result_buffer
        (on_pose_result (on_face_result (result_buffers_init :: (nat, nat) result_buffers)
           1 () 1000 1) 2 () 1000 1) 1000 = None"
  by (simp add: on_face_result_def on_pose_result_def try_queue_results_def prune_buffers_def
      result_buffers_init_def deque_new_def Let_def)

text \<open>
  C3, amended.  A face result for a timestamp appends a bundle to the output queue exactly
  when the pending entry of the timestamp already has a pose result and the frame buffer
  holds a frame for the timestamp; a pose result does so exactly when the entry already has a
  face result and a frame is stored.  The bundle is the frame with the pending entry as it is at
  that moment, so a hand or object result is in the bundle exactly when it was recorded before.
  A hand or an object result never changes the output queue, whatever was emitted or pruned
  before.
\<close>

theorem emission_iff_face_pose_and_frame:
  "processed_data_queue (on_face_result s r img ts now) =
     (case (result_buffer s ts, frame_buffer s ts) of
        (Some e, Some f) \<Rightarrow>
          if e ''pose'' \<noteq> None
          then deque_append (processed_data_queue s) (f, e(''face'' \<mapsto> r))
          else processed_data_queue s
      | _ \<Rightarrow> processed_data_queue s)
   \<and> processed_data_queue (on_pose_result s r img ts now) =
     (case (result_buffer s ts, frame_buffer s ts) of
        (Some e, Some f) \<Rightarrow>
          if e ''face'' \<noteq> None
          then deque_append (processed_data_queue s) (f, e(''pose'' \<mapsto> r))
          else processed_data_queue s
      | _ \<Rightarrow> processed_data_queue s)
   \<and> processed_data_queue (on_hand_result s r img ts) = processed_data_queue s
   \<and> processed_data_queue (on_object_result s r img ts) = processed_data_queue s"
  by (simp add: on_face_result_def on_pose_result_def on_hand_result_def on_object_result_def
      queue_try_queue_results Let_def split: option.splits)

text \<open>
  The partial bundle: with a frame stored for timestamp 1000, a face and then a pose result emit
  one bundle that holds the face and the pose result only, and a hand result recorded for 1000
  afterwards leaves the queue as it is.
\<close>

theorem emission_iff_face_pose_and_frame_witness:
  "items (processed_data_queue
     (on_pose_result
        (on_face_result
           ((result_buffers_init :: (nat, nat) result_buffers)\<lparr>frame_buffer := [1000 \<mapsto> 9]\<rparr>)
           11 () 1000 1)
        12 () 1000 1))
     = [(9, [''face'' \<mapsto> 11, ''pose'' \<mapsto> 12])]
   \<and> processed_data_queue
       (on_hand_result
          (on_pose_result
             (on_face_result
                ((result_buffers_init :: (nat, nat) result_buffers)
                   \<lparr>frame_buffer := [1000 \<mapsto> 9]\<rparr>)
                11 () 1000 1)
             12 () 1000 1)
          13 () 1000)
     = processed_data_queue
         (on_pose_result
            (on_face_result
               ((result_buffers_init :: (nat, nat) result_buffers)
                  \<lparr>frame_buffer := [1000 \<mapsto> 9]\<rparr>)
               11 () 1000 1)
            12 () 1000 1)"
proof -
  let ?s0 = "(result_buffers_init :: (nat, nat) result_buffers)\<lparr>frame_buffer := [1000 \<mapsto> 9]\<rparr>"
  let ?s1 = "on_face_result ?s0 11 () 1000 1"
  let ?s2 = "on_pose_result ?s1 12 () 1000 1"
  have s1: "result_buffer ?s1 1000 = Some [''face'' \<mapsto> 11]" "frame_buffer ?s1 1000 = Some 9"
    by (simp_all add: on_face_result_def try_queue_results_def result_buffers_init_def Let_def)
  have q1: "processed_data_queue ?s1 = deque_new 5"
    unfolding emission_iff_face_pose_and_frame [where s = ?s0, THEN conjunct1]
    by (simp add: result_buffers_init_def)
  have "processed_data_queue ?s2 = deque_append (deque_new 5) (9, [''face'' \<mapsto> 11, ''pose'' \<mapsto> 12])"
    unfolding emission_iff_face_pose_and_frame [where s = ?s1, THEN conjunct2, THEN conjunct1]
    by (simp add: s1 q1)
  then have "items (processed_data_queue ?s2) = [(9, [''face'' \<mapsto> 11, ''pose'' \<mapsto> 12])]"
    by (simp add: deque_new_def deque_append_def)
  moreover have "processed_data_queue (on_hand_result ?s2 13 () 1000) = processed_data_queue ?s2"
    by (rule emission_iff_face_pose_and_frame [where s = ?s2,
          THEN conjunct2, THEN conjunct2, THEN conjunct1])
  ultimately show ?thesis ..
qed

text \<open>
  C8.  The pruning walks the keys of the frame buffer only.  A hand result recorded for
  timestamp 1000 with no frame stored is still pending after the pruning that the face and pose
  results of timestamp 4000 trigger at clock reading 4 s, 3000 ms later.
\<close>

theorem prune_keeps_frameless_entry:
  "result_buffer
     (on_pose_result
        (on_face_result
           (on_hand_result (result_buffers_init :: (nat, nat) result_buffers) 7 () 1000)
           1 () 4000 4)
        2 () 4000 4) 1000 \<noteq> None
   \<and> py_int (4 * 1000) - 1000 > 2000"
  by (simp add: on_face_result_def on_pose_result_def on_hand_result_def try_queue_results_def
      prune_buffers_def result_buffers_init_def deque_new_def py_int_def Let_def)

section \<open>Properties of the event counter\<close>















section \<open>Properties of the fusion\<close>



subsection \<open>Rounding to the nearest double\<close>

lemma binade_numeral:
  "binade (numeral k) x =
     (if x < 1 then binade (pred_numeral k) (2 * x) - 1
      else if 2 \<le> x then binade (pred_numeral k) (x / 2) + 1
      else 0)"
  by (simp add: numeral_eq_Suc)

lemma two_powi_Suc: "(2::real) powi (k + 1) = 2 * 2 powi k"
  by (simp add: power_int_add)

lemma two_powi_pred: "(2::real) powi (k - 1) = 2 powi k / 2"
  by (simp add: power_int_diff)

lemma two_powi_less_iff: "(2::real) powi a < 2 powi b \<longleftrightarrow> a < b"
  by (metis power_int_strict_increasing power_int_increasing linorder_not_less
      one_less_numeral_iff semiring_norm(76) less_imp_le numeral_One numeral_le_iff
      semiring_norm(68))

lemma two_powi_le_iff: "(2::real) powi a \<le> 2 powi b \<longleftrightarrow> a \<le> b"
  using two_powi_less_iff [of b a] by (simp add: linorder_not_less [symmetric])

lemma binade_bounds:
  "0 < x \<Longrightarrow> 2 powi (- int n) \<le> x \<Longrightarrow> x < 2 powi (int n + 1) \<Longrightarrow>
   2 powi (binade n x) \<le> x \<and> x < 2 powi (binade n x + 1)"
proof (induction n arbitrary: x)
  case 0
  then show ?case by simp
next
  case (Suc n)
  have lo: "(2::real) powi (- int n) = 2 * 2 powi (- int (Suc n))"
    using two_powi_Suc [of "- int (Suc n)"] by simp
  have hi: "(2::real) powi (int (Suc n) + 1) = 2 * 2 powi (int n + 1)"
    using two_powi_Suc [of "int n + 1"] by (simp add: add.commute)
  have one: "(2::real) \<le> 2 powi (int n + 1)" "(2::real) powi (- int n) \<le> 1"
    using two_powi_le_iff [of 1 "int n + 1"] two_powi_le_iff [of "- int n" 0] by simp_all
  consider "x < 1" | "2 \<le> x" | "1 \<le> x" "x < 2" by linarith
  then show ?case
  proof cases
    case 1
    define b where "b = binade n (2 * x)"
    have "2 powi (- int n) \<le> 2 * x" using Suc.prems(2) lo by simp
    moreover have "2 * x < 2 powi (int n + 1)" using 1 one by simp
    ultimately have "2 powi b \<le> 2 * x \<and> 2 * x < 2 powi (b + 1)"
      unfolding b_def using Suc.prems(1) by (intro Suc.IH) simp_all
    then have ih: "2 powi b \<le> 2 * x" "2 * x < 2 * 2 powi b"
      by (simp_all only: two_powi_Suc)
    have eq: "binade (Suc n) x = b - 1" using 1 by (simp add: b_def)
    have lowb: "2 powi (b - 1) \<le> x" using ih(1) by (simp add: two_powi_pred)
    have upb: "x < 2 powi (b - 1 + 1)" using ih(2) by simp
    show ?thesis
      unfolding eq using lowb upb by blast
  next
    case 2
    define b where "b = binade n (x / 2)"
    have "2 powi (- int n) \<le> x / 2" using 2 one by simp
    moreover have "x / 2 < 2 powi (int n + 1)" using Suc.prems(3) hi by simp
    ultimately have "2 powi b \<le> x / 2 \<and> x / 2 < 2 powi (b + 1)"
      unfolding b_def using Suc.prems(1) by (intro Suc.IH) simp_all
    then have ih: "2 powi b \<le> x / 2" "x / 2 < 2 * 2 powi b"
      by (simp_all only: two_powi_Suc)
    have eq: "binade (Suc n) x = b + 1" using 2 by (simp add: b_def)
    have "2 * 2 powi b \<le> x \<and> x < 2 * (2 * 2 powi b)" using ih by simp
    then show ?thesis
      unfolding eq by (simp only: two_powi_Suc)
  next
    case 3
    then show ?thesis by simp
  qed
qed

lemma binade_small:
  "0 < x \<Longrightarrow> x < 2 powi (1 - int k) \<Longrightarrow> k \<le> n \<Longrightarrow> binade n x \<le> - int k"
proof (induction n arbitrary: x k)
  case 0
  then show ?case by simp
next
  case (Suc n)
  show ?case
  proof (cases k)
    case 0
    then have x2: "x < 2" using Suc.prems(2) by simp
    show ?thesis
    proof (cases "x < 1")
      case True
      then have "binade n (2 * x) \<le> - int 0"
        using Suc.prems(1) by (intro Suc.IH) simp_all
      then show ?thesis using True 0 by simp
    next
      case False
      then show ?thesis using x2 0 by simp
    qed
  next
    case (Suc j)
    have "(2::real) powi (1 - int k) \<le> 1"
      using two_powi_le_iff [of "1 - int k" 0] Suc by simp
    then have x1: "x < 1" using Suc.prems(2) by simp
    have "2 * x < 2 powi (1 - int j)"
      using Suc.prems(2) two_powi_Suc [of "1 - int k"] Suc by simp
    then have "binade n (2 * x) \<le> - int j"
      using Suc.prems(1,3) Suc by (intro Suc.IH) simp_all
    then show ?thesis using x1 Suc by simp
  qed
qed

lemma binade_clip:
  assumes "0 < a" "a < 2 powi 1101"
  defines "E \<equiv> max (binade 1100 a) (- 1022)"
  shows "- 1022 \<le> E \<and> a < 2 powi (E + 1) \<and> (E = - 1022 \<or> 2 powi E \<le> a)"
proof (cases "2 powi (- 1022) \<le> a")
  case True
  have "(2::real) powi (- int 1100) \<le> 2 powi (- 1022)"
    by (simp add: two_powi_le_iff)
  then have "2 powi (- int 1100) \<le> a" using True by (rule order_trans)
  moreover have "a < 2 powi (int 1100 + 1)" using assms(2) by (simp only: of_nat_numeral) simp
  ultimately have b: "2 powi (binade 1100 a) \<le> a" "a < 2 powi (binade 1100 a + 1)"
    using binade_bounds [OF assms(1), of 1100] by blast+
  have "(2::real) powi (- 1022) < 2 powi (binade 1100 a + 1)"
    using True b(2) by (rule le_less_trans)
  then have "- 1022 < binade 1100 a + 1" by (simp only: two_powi_less_iff)
  then have ge: "- 1022 \<le> binade 1100 a" by simp
  then have "E = binade 1100 a" by (simp add: E_def)
  then show ?thesis using b ge by simp
next
  case False
  have "(1::int) - int 1023 = - 1022" by simp
  then have "a < 2 powi (1 - int 1023)" using False by (simp only: not_le)
  then have "binade 1100 a \<le> - int 1023"
    using assms(1) by (intro binade_small) simp_all
  then have E: "E = - 1022" by (simp add: E_def)
  have "(2::real) powi (- 1022) \<le> 2 powi (- 1022 + 1)"
    by (rule two_powi_le_iff [THEN iffD2]) simp
  then have "a < 2 powi (- 1022 + 1)" using False by simp
  then show ?thesis unfolding E by simp
qed

lemma round_half_even_error: "\<bar>of_int (round_half_even y) - y\<bar> \<le> 1 / 2"
  by (simp add: round_half_even_def Let_def)

lemma round_half_even_of_int: "round_half_even (of_int n) = n"
  by (simp add: round_half_even_def)

lemma round_half_even_bound:
  assumes "\<bar>y\<bar> \<le> of_int M"
  shows "\<bar>round_half_even y\<bar> \<le> M"
proof -
  have "\<lfloor>y\<rfloor> \<le> round_half_even y" "round_half_even y \<le> \<lceil>y\<rceil>"
    by (auto simp: round_half_even_def Let_def ceiling_altdef)
  moreover have "- M \<le> \<lfloor>y\<rfloor>" using assms by (simp add: le_floor_iff abs_le_iff)
  moreover have "\<lceil>y\<rceil> \<le> M" using assms by (simp add: ceiling_le_iff abs_le_iff)
  ultimately show ?thesis by linarith
qed

lemma two_powi_pos: "0 < (2::real) powi k"
  by simp

lemma two_powi_shift: "(2::real) powi (k - 52) * 2 ^ 53 = 2 powi (k + 1)"
proof -
  have "(2::real) powi (k - 52 + 53) = 2 powi (k - 52) * 2 powi 53"
    by (rule power_int_add) simp
  then show ?thesis by (simp add: add.commute)
qed

lemma two_powi_half: "(2::real) powi (k - 52) / 2 = 2 powi k / 2 ^ 53"
proof -
  have "(2::real) powi (k - 52) * 2 ^ 53 = 2 * 2 powi k"
    by (simp only: two_powi_shift two_powi_Suc)
  then show ?thesis by (simp add: field_simps)
qed

lemma range_1024: "\<bar>x\<bar> < 2 powi 1024 \<Longrightarrow> \<bar>x::real\<bar> < 2 powi 1101"
proof -
  assume a: "\<bar>x\<bar> < 2 powi 1024"
  have "(2::real) powi 1024 \<le> 2 powi 1101"
    by (rule two_powi_le_iff [THEN iffD2]) simp
  with a show ?thesis by (rule less_le_trans)
qed

lemma ulp_props:
  assumes "x \<noteq> 0" "\<bar>x\<bar> < 2 powi 1101"
  obtains E where "ulp x = 2 powi (E - 52)" "- 1022 \<le> E" "\<bar>x\<bar> < 2 powi (E + 1)"
    "E = - 1022 \<or> 2 powi E \<le> \<bar>x\<bar>"
proof -
  have "0 < \<bar>x\<bar>" using assms(1) by simp
  note c = binade_clip [OF this assms(2)]
  show ?thesis
  proof (rule that)
    show "ulp x = 2 powi (max (binade 1100 \<bar>x\<bar>) (- 1022) - 52)"
      by (simp only: ulp_def)
    show "- 1022 \<le> max (binade 1100 \<bar>x\<bar>) (- 1022)"
      using c by blast
    show "\<bar>x\<bar> < 2 powi (max (binade 1100 \<bar>x\<bar>) (- 1022) + 1)"
      using c by blast
    show "max (binade 1100 \<bar>x\<bar>) (- 1022) = - 1022
        \<or> 2 powi max (binade 1100 \<bar>x\<bar>) (- 1022) \<le> \<bar>x\<bar>"
      using c by blast
  qed
qed

lemma fl_relative_error:
  assumes lo: "2 powi (- 1022) \<le> \<bar>x\<bar>" and hi: "\<bar>x\<bar> < 2 powi 1024"
  shows "\<bar>fl x - x\<bar> \<le> \<bar>x\<bar> / 2 ^ 53"
proof -
  have nz: "x \<noteq> 0" using lo two_powi_pos [of "- 1022"] by auto
  obtain E where E: "ulp x = 2 powi (E - 52)" "E = - 1022 \<or> 2 powi E \<le> \<bar>x\<bar>"
    using ulp_props [OF nz range_1024 [OF hi]] by blast
  have Ex: "2 powi E \<le> \<bar>x\<bar>" using E(2) lo by auto
  define u where "u = ulp x"
  have u: "0 < u" "u / 2 = 2 powi E / 2 ^ 53"
    unfolding u_def E(1) by (simp_all only: two_powi_pos two_powi_half)
  have "fl x - x = (of_int (round_half_even (x / u)) - x / u) * u"
    using nz u(1) by (simp add: fl_def u_def field_simps)
  then have "\<bar>fl x - x\<bar> = \<bar>of_int (round_half_even (x / u)) - x / u\<bar> * u"
    using u(1) by (simp add: abs_mult)
  also have "\<dots> \<le> 1 / 2 * u"
    using round_half_even_error [of "x / u"] u(1) by (intro mult_right_mono) simp_all
  also have "\<dots> = 2 powi E / 2 ^ 53" using u(2) by simp
  also have "\<dots> \<le> \<bar>x\<bar> / 2 ^ 53" using Ex by (simp add: divide_right_mono)
  finally show ?thesis .
qed

lemma fl_representable_strict:
  assumes z: "z = of_int m * 2 powi k" and m: "\<bar>m\<bar> < 2 ^ 53" and k: "- 1074 \<le> k"
    and r: "\<bar>z\<bar> < 2 powi 1101"
  shows "fl z = z"
proof (cases "z = 0")
  case True
  then show ?thesis by (simp add: fl_def)
next
  case False
  obtain E where E: "ulp z = 2 powi (E - 52)" "E = - 1022 \<or> 2 powi E \<le> \<bar>z\<bar>"
    using ulp_props [OF False r] by blast
  have "E - 52 \<le> k"
  proof (cases "E = - 1022")
    case True
    then show ?thesis using k by simp
  next
    case False
    then have "2 powi E \<le> \<bar>z\<bar>" using E(2) by simp
    also have "\<bar>z\<bar> = of_int \<bar>m\<bar> * 2 powi k"
      unfolding z by (simp add: abs_mult)
    also have "\<dots> < 2 ^ 53 * 2 powi k"
    proof -
      have "(of_int \<bar>m\<bar> :: real) < of_int (2 ^ 53)" using m by (simp only: of_int_less_iff)
      then have "(of_int \<bar>m\<bar> :: real) < 2 ^ 53" by simp
      then show ?thesis using two_powi_pos [of k] by (intro mult_strict_right_mono)
    qed
    also have "\<dots> = 2 powi (k + 53)"
      using power_int_add [of "2::real" k 53] by simp
    finally have "E < k + 53" by (simp only: two_powi_less_iff)
    then show ?thesis by simp
  qed
  then obtain d :: nat where d: "k = E - 52 + int d"
    using zle_iff_zadd by auto
  have split: "(2::real) powi k = 2 ^ d * 2 powi (E - 52)"
    unfolding d using power_int_add [of "2::real" "E - 52" "int d"] by simp
  have "z / 2 powi (E - 52) = of_int (m * 2 ^ d)"
    unfolding z split using two_powi_pos [of "E - 52"] by simp
  then have "z / ulp z = of_int (m * 2 ^ d)"
    by (simp only: E(1))
  then have "fl z = of_int (m * 2 ^ d) * ulp z"
    using False by (simp only: fl_def round_half_even_of_int if_False)
  also have "\<dots> = of_int (m * 2 ^ d) * 2 powi (E - 52)"
    by (simp only: E(1))
  also have "\<dots> = z"
    unfolding z split by simp
  finally show ?thesis .
qed

lemma fl_representable:
  assumes z: "z = of_int m * 2 powi k" and m: "\<bar>m\<bar> \<le> 2 ^ 53" and k: "- 1074 \<le> k"
    and r: "\<bar>z\<bar> < 2 powi 1101"
  shows "fl z = z"
proof (cases "\<bar>m\<bar> < 2 ^ 53")
  case True
  show ?thesis by (rule fl_representable_strict [OF z True k r])
next
  case False
  then have "\<bar>m\<bar> = 2 ^ 53" using m by simp
  then have "m = 9007199254740992 \<or> m = - 9007199254740992"
    by (simp add: abs_if split: if_splits)
  then have m2: "m = 2 * (m div 2)" "\<bar>m div 2\<bar> < 2 ^ 53"
    by auto
  have "z = of_int (m div 2) * 2 powi (k + 1)"
    unfolding z two_powi_Suc by (subst m2(1)) simp
  then show ?thesis
    using m2(2) k r by (intro fl_representable_strict [of z "m div 2" "k + 1"]) simp_all
qed

lemma fl_idempotent:
  assumes hi: "\<bar>x\<bar> < 2 powi 1024"
  shows "fl (fl x) = fl x"
proof (cases "x = 0")
  case True
  then show ?thesis by (simp add: fl_def)
next
  case False
  obtain E where E: "ulp x = 2 powi (E - 52)" "- 1022 \<le> E" "\<bar>x\<bar> < 2 powi (E + 1)"
    "E = - 1022 \<or> 2 powi E \<le> \<bar>x\<bar>"
    using ulp_props [OF False range_1024 [OF hi]] by blast
  define n where "n = round_half_even (x / ulp x)"
  have flx: "fl x = of_int n * 2 powi (E - 52)"
    using False by (simp add: fl_def n_def E(1))
  have "\<bar>x / ulp x\<bar> = \<bar>x\<bar> / 2 powi (E - 52)"
    unfolding E(1) by (simp add: abs_divide)
  also have "\<dots> \<le> 2 ^ 53"
    using E(3) two_powi_shift [of E] two_powi_pos [of "E - 52"]
    by (simp add: pos_divide_le_eq mult.commute)
  finally have "\<bar>x / ulp x\<bar> \<le> of_int (2 ^ 53)" by simp
  then have n: "\<bar>n\<bar> \<le> 2 ^ 53" unfolding n_def by (rule round_half_even_bound)
  have E_hi: "E + 1 \<le> 1024"
  proof (cases "E = - 1022")
    case True
    then show ?thesis by simp
  next
    case False
    then have "2 powi E \<le> \<bar>x\<bar>" using E(4) by simp
    then have "(2::real) powi E < 2 powi 1024" using hi by (rule le_less_trans)
    then have "E < 1024" by (simp only: two_powi_less_iff)
    then show ?thesis by simp
  qed
  have "\<bar>fl x\<bar> = of_int \<bar>n\<bar> * 2 powi (E - 52)"
    unfolding flx by (simp add: abs_mult)
  also have "\<dots> \<le> 2 ^ 53 * 2 powi (E - 52)"
  proof -
    have "(of_int \<bar>n\<bar> :: real) \<le> of_int (2 ^ 53)" using n by (simp only: of_int_le_iff)
    then have "(of_int \<bar>n\<bar> :: real) \<le> 2 ^ 53" by simp
    then show ?thesis using two_powi_pos [of "E - 52"] by (intro mult_right_mono) simp_all
  qed
  also have "\<dots> = 2 powi (E + 1)" using two_powi_shift [of E] by (simp add: mult.commute)
  also have "\<dots> \<le> 2 powi 1024" using E_hi by (simp only: two_powi_le_iff)
  also have "\<dots> < 2 powi 1101" by (rule two_powi_less_iff [THEN iffD2]) simp
  finally have r: "\<bar>fl x\<bar> < 2 powi 1101" .
  have k: "- 1074 \<le> E - 52" using E(2) by simp
  show ?thesis
    using flx n k r by (rule fl_representable)
qed

lemma fl_0: "fl 0 = 0"
  by (simp add: fl_def)

lemma usable_product:
  assumes w: "usable_weight w" and s: "2 powi (- 1000) \<le> \<bar>s\<bar>" "\<bar>s\<bar> \<le> 2 powi 1000"
  shows "2 powi (- 1022) \<le> \<bar>s * w\<bar>" "\<bar>s * w\<bar> < 2 powi 1024" "0 < w"
proof -
  have w20: "2 powi (- 20) \<le> w" and w1: "w \<le> 1" using w by (simp_all add: usable_weight_def)
  show w0: "0 < w" using w20 two_powi_pos [of "- 20"] by (rule less_le_trans [rotated])
  have "(2::real) powi (- 1022) \<le> 2 powi (- 1020)"
    by (rule two_powi_le_iff [THEN iffD2]) simp
  also have "(2::real) powi (- 1020) = 2 powi (- 1000) * 2 powi (- 20)"
    using power_int_add [of "2::real" "- 1000" "- 20"] by simp
  also have "\<dots> \<le> \<bar>s\<bar> * w"
    using s(1) w20 two_powi_pos [of "- 20"] two_powi_pos [of "- 1000"]
    by (intro mult_mono) simp_all
  finally show "2 powi (- 1022) \<le> \<bar>s * w\<bar>" using w0 by (simp add: abs_mult)
  have "\<bar>s * w\<bar> = \<bar>s\<bar> * w" using w0 by (simp add: abs_mult)
  also have "\<dots> \<le> 2 powi 1000 * 1"
    using s(2) w1 w0 by (intro mult_mono) simp_all
  also have "\<dots> < 2 powi 1024"
    using two_powi_less_iff [of 1000 1024] by simp
  finally show "\<bar>s * w\<bar> < 2 powi 1024" .
qed

subsection \<open>A single available modality\<close>

lemma renormalized_error:
  assumes w: "usable_weight w" and s: "usable_score s"
  shows "\<bar>renormalized s w - s\<bar> \<le> 3 * \<bar>s\<bar> / 2 ^ 53"
proof (cases "s = 0")
  case True
  then show ?thesis by (simp add: renormalized_def fl_0)
next
  case False
  then have s': "2 powi (- 1000) \<le> \<bar>s\<bar>" "\<bar>s\<bar> \<le> 2 powi 1000"
    using s by (simp_all add: usable_score_def)
  note p = usable_product [OF w s']
  define q where "q = fl (s * w) / w"
  have e1: "\<bar>fl (s * w) - s * w\<bar> \<le> \<bar>s * w\<bar> / 2 ^ 53"
    using p(1,2) by (rule fl_relative_error)
  have "q - s = (fl (s * w) - s * w) / w"
    using p(3) by (simp add: q_def field_simps)
  then have "\<bar>q - s\<bar> = \<bar>fl (s * w) - s * w\<bar> / w"
    using p(3) by (simp add: abs_divide)
  also have "\<dots> \<le> \<bar>s * w\<bar> / 2 ^ 53 / w"
    using e1 p(3) by (intro divide_right_mono) simp_all
  also have "\<dots> = \<bar>s\<bar> / 2 ^ 53"
    using p(3) by (simp add: abs_mult)
  finally have qs: "\<bar>q - s\<bar> \<le> \<bar>s\<bar> / 2 ^ 53" .
  have "\<bar>s\<bar> / 2 ^ 53 \<le> \<bar>s\<bar> / 2" by (simp add: field_simps)
  with qs have near: "\<bar>q - s\<bar> \<le> \<bar>s\<bar> / 2" by linarith
  then have q_lo: "\<bar>s\<bar> / 2 \<le> \<bar>q\<bar>" and q_hi: "\<bar>q\<bar> \<le> 2 * \<bar>s\<bar>" by linarith+
  have "(2::real) powi (- 1022) \<le> 2 powi (- 1001)"
    by (rule two_powi_le_iff [THEN iffD2]) simp
  also have "(2::real) powi (- 1001) = 2 powi (- 1000) / 2"
    using two_powi_pred [of "- 1000"] by simp
  also have "\<dots> \<le> \<bar>s\<bar> / 2" using s'(1) by simp
  also note q_lo
  finally have r1: "2 powi (- 1022) \<le> \<bar>q\<bar>" .
  have "2 * \<bar>s\<bar> \<le> 2 * 2 powi 1000" using s'(2) by simp
  also have "\<dots> = 2 powi (1000 + 1)" by (rule two_powi_Suc [symmetric])
  also have "\<dots> < 2 powi 1024" by (rule two_powi_less_iff [THEN iffD2]) simp
  finally have r2: "\<bar>q\<bar> < 2 powi 1024" using q_hi by linarith
  have e2: "\<bar>fl q - q\<bar> \<le> \<bar>q\<bar> / 2 ^ 53"
    using r1 r2 by (rule fl_relative_error)
  also have "\<dots> \<le> 2 * \<bar>s\<bar> / 2 ^ 53"
    using q_hi by (intro divide_right_mono) simp_all
  finally have e2': "\<bar>fl q - q\<bar> \<le> 2 * \<bar>s\<bar> / 2 ^ 53" .
  have "\<bar>fl q - s\<bar> \<le> \<bar>fl q - q\<bar> + \<bar>q - s\<bar>" by linarith
  also have "\<dots> \<le> 2 * \<bar>s\<bar> / 2 ^ 53 + \<bar>s\<bar> / 2 ^ 53"
    using e2' qs by linarith
  also have "\<dots> = 3 * \<bar>s\<bar> / 2 ^ 53" by simp
  finally show ?thesis by (simp only: renormalized_def q_def)
qed

lemma single_modality:
  assumes w: "usable_weight w" and s: "usable_score s"
  shows "fl (0 + w) = w" "fl (0 + fl (s * w)) = fl (s * w)" "0 < w"
proof -
  show "fl (0 + w) = w" using w by (simp add: usable_weight_def)
  show w0: "0 < w"
    using w two_powi_pos [of "- 20"] by (simp add: usable_weight_def)
  have "\<bar>s * w\<bar> < 2 powi 1024"
  proof (cases "s = 0")
    case True
    then show ?thesis using two_powi_pos [of 1024] by simp
  next
    case False
    then have "2 powi (- 1000) \<le> \<bar>s\<bar>" "\<bar>s\<bar> \<le> 2 powi 1000"
      using s by (simp_all add: usable_score_def)
    then show ?thesis by (rule usable_product(2) [OF w])
  qed
  then show "fl (0 + fl (s * w)) = fl (s * w)"
    by (simp add: fl_idempotent)
qed

lemma fuse_drowsiness_fl_none:
  "\<not> truthy (k_available fd) \<and> \<not> truthy (k_available pd) \<and> \<not> truthy (k_available ed) \<longrightarrow>
   fuse_drowsiness_signals_fl self fd pd ed = 0"
  by (simp add: fuse_drowsiness_signals_fl_def)

lemma fuse_distraction_fl_none:
  "\<not> truthy (k_available fd) \<and> \<not> truthy (k_available hnd) \<and> \<not> truthy (k_available obj)
     \<and> \<not> truthy (k_available ed) \<longrightarrow>
   fuse_distraction_signals_fl self fd hnd obj ed = 0"
  by (simp add: fuse_distraction_signals_fl_def)

lemma fuse_drowsiness_fl_face:
  "truthy (k_available fd) \<and> \<not> truthy (k_available pd) \<and> \<not> truthy (k_available ed)
     \<and> usable_weight (w_face (weights self)) \<and> usable_score (face_drowsiness_fl fd) \<longrightarrow>
   fuse_drowsiness_signals_fl self fd pd ed
     = renormalized (face_drowsiness_fl fd) (w_face (weights self))
   \<and> \<bar>fuse_drowsiness_signals_fl self fd pd ed - face_drowsiness_fl fd\<bar>
       \<le> 3 * \<bar>face_drowsiness_fl fd\<bar> / 2 ^ 53"
proof (intro impI, elim conjE)
  assume w: "usable_weight (w_face (weights self))" and s: "usable_score (face_drowsiness_fl fd)"
  assume "truthy (k_available fd)" "\<not> truthy (k_available pd)" "\<not> truthy (k_available ed)"
  then have eq: "fuse_drowsiness_signals_fl self fd pd ed
      = renormalized (face_drowsiness_fl fd) (w_face (weights self))"
    using single_modality [OF w s]
    by (simp add: fuse_drowsiness_signals_fl_def renormalized_def)
  show "fuse_drowsiness_signals_fl self fd pd ed
      = renormalized (face_drowsiness_fl fd) (w_face (weights self))
    \<and> \<bar>fuse_drowsiness_signals_fl self fd pd ed - face_drowsiness_fl fd\<bar>
       \<le> 3 * \<bar>face_drowsiness_fl fd\<bar> / 2 ^ 53"
    unfolding eq by (intro conjI refl renormalized_error w s)
qed

lemma fuse_drowsiness_fl_pose:
  "\<not> truthy (k_available fd) \<and> truthy (k_available pd) \<and> \<not> truthy (k_available ed)
     \<and> usable_weight (w_pose (weights self)) \<and> usable_score (pose_drowsiness pd) \<longrightarrow>
   fuse_drowsiness_signals_fl self fd pd ed
     = renormalized (pose_drowsiness pd) (w_pose (weights self))
   \<and> \<bar>fuse_drowsiness_signals_fl self fd pd ed - pose_drowsiness pd\<bar>
       \<le> 3 * \<bar>pose_drowsiness pd\<bar> / 2 ^ 53"
proof (intro impI, elim conjE)
  assume w: "usable_weight (w_pose (weights self))" and s: "usable_score (pose_drowsiness pd)"
  assume "\<not> truthy (k_available fd)" "truthy (k_available pd)" "\<not> truthy (k_available ed)"
  then have eq: "fuse_drowsiness_signals_fl self fd pd ed
      = renormalized (pose_drowsiness pd) (w_pose (weights self))"
    using single_modality [OF w s]
    by (simp add: fuse_drowsiness_signals_fl_def renormalized_def)
  show "fuse_drowsiness_signals_fl self fd pd ed
      = renormalized (pose_drowsiness pd) (w_pose (weights self))
    \<and> \<bar>fuse_drowsiness_signals_fl self fd pd ed - pose_drowsiness pd\<bar>
       \<le> 3 * \<bar>pose_drowsiness pd\<bar> / 2 ^ 53"
    unfolding eq by (intro conjI refl renormalized_error w s)
qed

lemma fuse_drowsiness_fl_emotion:
  "\<not> truthy (k_available fd) \<and> \<not> truthy (k_available pd) \<and> truthy (k_available ed)
     \<and> usable_weight (w_emotion (weights self)) \<and> usable_score (emotion_fatigue_fl ed) \<longrightarrow>
   fuse_drowsiness_signals_fl self fd pd ed
     = renormalized (emotion_fatigue_fl ed) (w_emotion (weights self))
   \<and> \<bar>fuse_drowsiness_signals_fl self fd pd ed - emotion_fatigue_fl ed\<bar>
       \<le> 3 * \<bar>emotion_fatigue_fl ed\<bar> / 2 ^ 53"
proof (intro impI, elim conjE)
  assume w: "usable_weight (w_emotion (weights self))" and s: "usable_score (emotion_fatigue_fl ed)"
  assume "\<not> truthy (k_available fd)" "\<not> truthy (k_available pd)" "truthy (k_available ed)"
  then have eq: "fuse_drowsiness_signals_fl self fd pd ed
      = renormalized (emotion_fatigue_fl ed) (w_emotion (weights self))"
    using single_modality [OF w s]
    by (simp add: fuse_drowsiness_signals_fl_def renormalized_def)
  show "fuse_drowsiness_signals_fl self fd pd ed
      = renormalized (emotion_fatigue_fl ed) (w_emotion (weights self))
    \<and> \<bar>fuse_drowsiness_signals_fl self fd pd ed - emotion_fatigue_fl ed\<bar>
       \<le> 3 * \<bar>emotion_fatigue_fl ed\<bar> / 2 ^ 53"
    unfolding eq by (intro conjI refl renormalized_error w s)
qed

lemma fuse_distraction_fl_face:
  "truthy (k_available fd) \<and> \<not> truthy (k_available hnd) \<and> \<not> truthy (k_available obj) \<and> \<not> truthy (k_available ed)
     \<and> usable_weight (w_face (weights self)) \<and> usable_score (face_distraction_fl fd) \<longrightarrow>
   fuse_distraction_signals_fl self fd hnd obj ed
     = renormalized (face_distraction_fl fd) (w_face (weights self))
   \<and> \<bar>fuse_distraction_signals_fl self fd hnd obj ed - face_distraction_fl fd\<bar>
       \<le> 3 * \<bar>face_distraction_fl fd\<bar> / 2 ^ 53"
proof (intro impI, elim conjE)
  assume w: "usable_weight (w_face (weights self))" and s: "usable_score (face_distraction_fl fd)"
  assume "truthy (k_available fd)" "\<not> truthy (k_available hnd)" "\<not> truthy (k_available obj)" "\<not> truthy (k_available ed)"
  then have eq: "fuse_distraction_signals_fl self fd hnd obj ed
      = renormalized (face_distraction_fl fd) (w_face (weights self))"
    using single_modality [OF w s]
    by (simp add: fuse_distraction_signals_fl_def renormalized_def)
  show "fuse_distraction_signals_fl self fd hnd obj ed
      = renormalized (face_distraction_fl fd) (w_face (weights self))
    \<and> \<bar>fuse_distraction_signals_fl self fd hnd obj ed - face_distraction_fl fd\<bar>
       \<le> 3 * \<bar>face_distraction_fl fd\<bar> / 2 ^ 53"
    unfolding eq by (intro conjI refl renormalized_error w s)
qed

lemma fuse_distraction_fl_hand:
  "\<not> truthy (k_available fd) \<and> truthy (k_available hnd) \<and> \<not> truthy (k_available obj) \<and> \<not> truthy (k_available ed)
     \<and> usable_weight (w_hand (weights self)) \<and> usable_score (hand_distraction_fl hnd) \<longrightarrow>
   fuse_distraction_signals_fl self fd hnd obj ed
     = renormalized (hand_distraction_fl hnd) (w_hand (weights self))
   \<and> \<bar>fuse_distraction_signals_fl self fd hnd obj ed - hand_distraction_fl hnd\<bar>
       \<le> 3 * \<bar>hand_distraction_fl hnd\<bar> / 2 ^ 53"
proof (intro impI, elim conjE)
  assume w: "usable_weight (w_hand (weights self))" and s: "usable_score (hand_distraction_fl hnd)"
  assume "\<not> truthy (k_available fd)" "truthy (k_available hnd)" "\<not> truthy (k_available obj)" "\<not> truthy (k_available ed)"
  then have eq: "fuse_distraction_signals_fl self fd hnd obj ed
      = renormalized (hand_distraction_fl hnd) (w_hand (weights self))"
    using single_modality [OF w s]
    by (simp add: fuse_distraction_signals_fl_def renormalized_def)
  show "fuse_distraction_signals_fl self fd hnd obj ed
      = renormalized (hand_distraction_fl hnd) (w_hand (weights self))
    \<and> \<bar>fuse_distraction_signals_fl self fd hnd obj ed - hand_distraction_fl hnd\<bar>
       \<le> 3 * \<bar>hand_distraction_fl hnd\<bar> / 2 ^ 53"
    unfolding eq by (intro conjI refl renormalized_error w s)
qed

lemma fuse_distraction_fl_object:
  "\<not> truthy (k_available fd) \<and> \<not> truthy (k_available hnd) \<and> truthy (k_available obj) \<and> \<not> truthy (k_available ed)
     \<and> usable_weight (w_object (weights self)) \<and> usable_score (object_distraction obj) \<longrightarrow>
   fuse_distraction_signals_fl self fd hnd obj ed
     = renormalized (object_distraction obj) (w_object (weights self))
   \<and> \<bar>fuse_distraction_signals_fl self fd hnd obj ed - object_distraction obj\<bar>
       \<le> 3 * \<bar>object_distraction obj\<bar> / 2 ^ 53"
proof (intro impI, elim conjE)
  assume w: "usable_weight (w_object (weights self))" and s: "usable_score (object_distraction obj)"
  assume "\<not> truthy (k_available fd)" "\<not> truthy (k_available hnd)" "truthy (k_available obj)" "\<not> truthy (k_available ed)"
  then have eq: "fuse_distraction_signals_fl self fd hnd obj ed
      = renormalized (object_distraction obj) (w_object (weights self))"
    using single_modality [OF w s]
    by (simp add: fuse_distraction_signals_fl_def renormalized_def)
  show "fuse_distraction_signals_fl self fd hnd obj ed
      = renormalized (object_distraction obj) (w_object (weights self))
    \<and> \<bar>fuse_distraction_signals_fl self fd hnd obj ed - object_distraction obj\<bar>
       \<le> 3 * \<bar>object_distraction obj\<bar> / 2 ^ 53"
    unfolding eq by (intro conjI refl renormalized_error w s)
qed

lemma fuse_distraction_fl_emotion:
  "\<not> truthy (k_available fd) \<and> \<not> truthy (k_available hnd) \<and> \<not> truthy (k_available obj) \<and> truthy (k_available ed)
     \<and> usable_weight (w_emotion (weights self)) \<and> usable_score (emotion_distraction ed) \<longrightarrow>
   fuse_distraction_signals_fl self fd hnd obj ed
     = renormalized (emotion_distraction ed) (w_emotion (weights self))
   \<and> \<bar>fuse_distraction_signals_fl self fd hnd obj ed - emotion_distraction ed\<bar>
       \<le> 3 * \<bar>emotion_distraction ed\<bar> / 2 ^ 53"
proof (intro impI, elim conjE)
  assume w: "usable_weight (w_emotion (weights self))" and s: "usable_score (emotion_distraction ed)"
  assume "\<not> truthy (k_available fd)" "\<not> truthy (k_available hnd)" "\<not> truthy (k_available obj)" "truthy (k_available ed)"
  then have eq: "fuse_distraction_signals_fl self fd hnd obj ed
      = renormalized (emotion_distraction ed) (w_emotion (weights self))"
    using single_modality [OF w s]
    by (simp add: fuse_distraction_signals_fl_def renormalized_def)
  show "fuse_distraction_signals_fl self fd hnd obj ed
      = renormalized (emotion_distraction ed) (w_emotion (weights self))
    \<and> \<bar>fuse_distraction_signals_fl self fd hnd obj ed - emotion_distraction ed\<bar>
       \<le> 3 * \<bar>emotion_distraction ed\<bar> / 2 ^ 53"
    unfolding eq by (intro conjI refl renormalized_error w s)
qed

lemma usable_weights_init:
  "usable_weight (w_face (weights multimodal_analyzer_init_fl))"
  "usable_weight (w_pose (weights multimodal_analyzer_init_fl))"
  "usable_weight (w_hand (weights multimodal_analyzer_init_fl))"
  "usable_weight (w_object (weights multimodal_analyzer_init_fl))"
  "usable_weight (w_emotion (weights multimodal_analyzer_init_fl))"
  by (simp_all add: multimodal_analyzer_init_fl_def usable_weight_def fl_def ulp_def
      binade_numeral round_half_even_def Let_def)

text \<open>
  C1, as the claim states it, fails in the arithmetic of the code: with the weights of the
  analyzer and the emotion modality alone available, FATIGUE of confidence 0.8 (the double
  \<open>7205759403792794 / 2 ^ 53\<close>) is fused to the next double above it, which Python prints as
  0.8000000000000002; with the object modality alone available, the distraction score 0.4 is
  fused to the next double above it, 0.4000000000000001.  The product with the weight 0.1 is
  rounded, and the division by 0.1 does not undo the rounding.
\<close>

theorem fusion_exact_counterexample:
  "emotion_fatigue_fl
     (empty_dict\<lparr>k_available := Some True,
           k_emotion := Some FATIGUE,
           k_confidence := Some (fl 0.8)\<rparr>)
     = 7205759403792794 / 2 ^ 53
   \<and> fuse_drowsiness_signals_fl multimodal_analyzer_init_fl
        empty_dict
        empty_dict (empty_dict\<lparr>k_available := Some True,
           k_emotion := Some FATIGUE,
           k_confidence := Some (fl 0.8)\<rparr>)
     = 7205759403792795 / 2 ^ 53
   \<and> object_distraction
     (empty_dict\<lparr>k_available := Some True,
           k_distraction_score := Some (fl 0.4)\<rparr>)
     = 7205759403792794 / 2 ^ 54
   \<and> fuse_distraction_signals_fl multimodal_analyzer_init_fl
        empty_dict
        empty_dict (empty_dict\<lparr>k_available := Some True,
           k_distraction_score := Some (fl 0.4)\<rparr>) empty_dict
     = 7205759403792795 / 2 ^ 54"
  by (simp add: empty_dict_def truthy_def dget_def multimodal_analyzer_init_fl_def
      face_drowsiness_fl_def pose_drowsiness_def emotion_fatigue_fl_def face_distraction_fl_def
      hand_distraction_fl_def object_distraction_def emotion_distraction_def
      fuse_drowsiness_signals_fl_def fuse_distraction_signals_fl_def renormalized_def
      usable_weight_def usable_score_def fl_def ulp_def binade_numeral round_half_even_def Let_def)

text \<open>
  C1, amended.  When no modality is available the fused fatigue score and the fused distraction
  score are 0.  When exactly one modality is available, with raw score \<open>s\<close> and weight \<open>w\<close>, the
  fused score is the double \<open>fl (fl (s * w) / w)\<close>, and it differs from \<open>s\<close> by at most
  \<open>3 * \<bar>s\<bar> / 2 ^ 53\<close>, whatever the weight, provided the weight and the score are usable; and the
  five weights of the analyzer are usable.
\<close>

theorem fusion_renormalization_rounded:
  "(\<not> truthy (k_available fd) \<and> \<not> truthy (k_available pd) \<and> \<not> truthy (k_available ed) \<longrightarrow>
      fuse_drowsiness_signals_fl self fd pd ed = 0)
   \<and> (truthy (k_available fd) \<and> \<not> truthy (k_available pd) \<and> \<not> truthy (k_available ed)
        \<and> usable_weight (w_face (weights self)) \<and> usable_score (face_drowsiness_fl fd) \<longrightarrow>
      fuse_drowsiness_signals_fl self fd pd ed
        = renormalized (face_drowsiness_fl fd) (w_face (weights self))
      \<and> \<bar>fuse_drowsiness_signals_fl self fd pd ed - face_drowsiness_fl fd\<bar>
          \<le> 3 * \<bar>face_drowsiness_fl fd\<bar> / 2 ^ 53)
   \<and> (\<not> truthy (k_available fd) \<and> truthy (k_available pd) \<and> \<not> truthy (k_available ed)
        \<and> usable_weight (w_pose (weights self)) \<and> usable_score (pose_drowsiness pd) \<longrightarrow>
      fuse_drowsiness_signals_fl self fd pd ed
        = renormalized (pose_drowsiness pd) (w_pose (weights self))
      \<and> \<bar>fuse_drowsiness_signals_fl self fd pd ed - pose_drowsiness pd\<bar>
          \<le> 3 * \<bar>pose_drowsiness pd\<bar> / 2 ^ 53)
   \<and> (\<not> truthy (k_available fd) \<and> \<not> truthy (k_available pd) \<and> truthy (k_available ed)
        \<and> usable_weight (w_emotion (weights self)) \<and> usable_score (emotion_fatigue_fl ed) \<longrightarrow>
      fuse_drowsiness_signals_fl self fd pd ed
        = renormalized (emotion_fatigue_fl ed) (w_emotion (weights self))
      \<and> \<bar>fuse_drowsiness_signals_fl self fd pd ed - emotion_fatigue_fl ed\<bar>
          \<le> 3 * \<bar>emotion_fatigue_fl ed\<bar> / 2 ^ 53)
   \<and> (\<not> truthy (k_available fd) \<and> \<not> truthy (k_available hnd) \<and> \<not> truthy (k_available obj)
        \<and> \<not> truthy (k_available ed) \<longrightarrow>
      fuse_distraction_signals_fl self fd hnd obj ed = 0)
   \<and> (truthy (k_available fd) \<and> \<not> truthy (k_available hnd) \<and> \<not> truthy (k_available obj)
        \<and> \<not> truthy (k_available ed)
        \<and> usable_weight (w_face (weights self)) \<and> usable_score (face_distraction_fl fd) \<longrightarrow>
      fuse_distraction_signals_fl self fd hnd obj ed
        = renormalized (face_distraction_fl fd) (w_face (weights self))
      \<and> \<bar>fuse_distraction_signals_fl self fd hnd obj ed - face_distraction_fl fd\<bar>
          \<le> 3 * \<bar>face_distraction_fl fd\<bar> / 2 ^ 53)
   \<and> (\<not> truthy (k_available fd) \<and> truthy (k_available hnd) \<and> \<not> truthy (k_available obj)
        \<and> \<not> truthy (k_available ed)
        \<and> usable_weight (w_hand (weights self)) \<and> usable_score (hand_distraction_fl hnd) \<longrightarrow>
      fuse_distraction_signals_fl self fd hnd obj ed
        = renormalized (hand_distraction_fl hnd) (w_hand (weights self))
      \<and> \<bar>fuse_distraction_signals_fl self fd hnd obj ed - hand_distraction_fl hnd\<bar>
          \<le> 3 * \<bar>hand_distraction_fl hnd\<bar> / 2 ^ 53)
   \<and> (\<not> truthy (k_available fd) \<and> \<not> truthy (k_available hnd) \<and> truthy (k_available obj)
        \<and> \<not> truthy (k_available ed)
        \<and> usable_weight (w_object (weights self)) \<and> usable_score (object_distraction obj) \<longrightarrow>
      fuse_distraction_signals_fl self fd hnd obj ed
        = renormalized (object_distraction obj) (w_object (weights self))
      \<and> \<bar>fuse_distraction_signals_fl self fd hnd obj ed - object_distraction obj\<bar>
          \<le> 3 * \<bar>object_distraction obj\<bar> / 2 ^ 53)
   \<and> (\<not> truthy (k_available fd) \<and> \<not> truthy (k_available hnd) \<and> \<not> truthy (k_available obj)
        \<and> truthy (k_available ed)
        \<and> usable_weight (w_emotion (weights self)) \<and> usable_score (emotion_distraction ed)
        \<longrightarrow>
      fuse_distraction_signals_fl self fd hnd obj ed
        = renormalized (emotion_distraction ed) (w_emotion (weights self))
      \<and> \<bar>fuse_distraction_signals_fl self fd hnd obj ed - emotion_distraction ed\<bar>
          \<le> 3 * \<bar>emotion_distraction ed\<bar> / 2 ^ 53)
   \<and> usable_weight (w_face (weights multimodal_analyzer_init_fl))
   \<and> usable_weight (w_pose (weights multimodal_analyzer_init_fl))
   \<and> usable_weight (w_hand (weights multimodal_analyzer_init_fl))
   \<and> usable_weight (w_object (weights multimodal_analyzer_init_fl))
   \<and> usable_weight (w_emotion (weights multimodal_analyzer_init_fl))"
  by (intro conjI fuse_drowsiness_fl_none fuse_distraction_fl_none fuse_drowsiness_fl_face
      fuse_drowsiness_fl_pose fuse_drowsiness_fl_emotion fuse_distraction_fl_face
      fuse_distraction_fl_hand fuse_distraction_fl_object fuse_distraction_fl_emotion
      usable_weights_init)

text \<open>
  With the weights of the analyzer: no modality, and each single modality in turn, for both
  scores.  The scores 0.6 (weight 0.25), 0.5 (weight 0.2) and 0.9 (weight 0.1) come back
  unchanged; 0.8 and 0.4 (weight 0.1) come back one double higher, 0.2 (weight 0.35) one double
  lower, and the face fatigue score \<open>4053239664633447 / 2 ^ 53\<close> one double lower.
\<close>

theorem fusion_renormalization_rounded_witness:
  "fuse_drowsiness_signals_fl multimodal_analyzer_init_fl
        empty_dict
        empty_dict empty_dict = 0
   \<and> fuse_drowsiness_signals_fl multimodal_analyzer_init_fl
        (empty_dict\<lparr>k_available := Some True,
           k_perclos := Some (fl 0.9),
           k_enhanced_ear := Some (fl 0.2),
           k_temporal_attention_score := Some (fl 0.1)\<rparr>)
        empty_dict empty_dict = 8106479329266893 / 2 ^ 54
   \<and> fuse_drowsiness_signals_fl multimodal_analyzer_init_fl
        empty_dict
        (empty_dict\<lparr>k_available := Some True,
           k_head_nod_score := Some (fl 0.6)\<rparr>) empty_dict = 5404319552844595 / 2 ^ 53
   \<and> fuse_drowsiness_signals_fl multimodal_analyzer_init_fl
        empty_dict
        empty_dict (empty_dict\<lparr>k_available := Some True,
           k_emotion := Some FATIGUE,
           k_confidence := Some (fl 0.8)\<rparr>) = 7205759403792795 / 2 ^ 53
   \<and> fuse_distraction_signals_fl multimodal_analyzer_init_fl
        empty_dict
        empty_dict empty_dict empty_dict = 0
   \<and> fuse_distraction_signals_fl multimodal_analyzer_init_fl
        (empty_dict\<lparr>k_available := Some True,
           k_gaze_deviation_score := Some (fl 0.2),
           k_attention_focus_score := Some (fl 0.8)\<rparr>)
        empty_dict empty_dict empty_dict = 7205759403792793 / 2 ^ 55
   \<and> fuse_distraction_signals_fl multimodal_analyzer_init_fl
        empty_dict
        (empty_dict\<lparr>k_available := Some True,
           k_hands_on_wheel_confidence := Some (fl 0.5)\<rparr>) empty_dict empty_dict = 1 / 2
   \<and> fuse_distraction_signals_fl multimodal_analyzer_init_fl
        empty_dict
        empty_dict (empty_dict\<lparr>k_available := Some True,
           k_distraction_score := Some (fl 0.4)\<rparr>) empty_dict = 7205759403792795 / 2 ^ 54
   \<and> fuse_distraction_signals_fl multimodal_analyzer_init_fl
        empty_dict
        empty_dict empty_dict (empty_dict\<lparr>k_available := Some True,
           k_emotion := Some ANGER,
           k_confidence := Some (fl 0.9)\<rparr>) = 8106479329266893 / 2 ^ 53
   \<and> \<bar>fuse_drowsiness_signals_fl multimodal_analyzer_init_fl
        (empty_dict\<lparr>k_available := Some True,
           k_perclos := Some (fl 0.9),
           k_enhanced_ear := Some (fl 0.2),
           k_temporal_attention_score := Some (fl 0.1)\<rparr>)
        empty_dict empty_dict
      - face_drowsiness_fl
        (empty_dict\<lparr>k_available := Some True,
           k_perclos := Some (fl 0.9),
           k_enhanced_ear := Some (fl 0.2),
           k_temporal_attention_score := Some (fl 0.1)\<rparr>)\<bar>
     \<le> 3 * \<bar>face_drowsiness_fl
        (empty_dict\<lparr>k_available := Some True,
           k_perclos := Some (fl 0.9),
           k_enhanced_ear := Some (fl 0.2),
           k_temporal_attention_score := Some (fl 0.1)\<rparr>)\<bar> / 2 ^ 53
   \<and> \<bar>fuse_drowsiness_signals_fl multimodal_analyzer_init_fl
        empty_dict
        empty_dict (empty_dict\<lparr>k_available := Some True,
           k_emotion := Some FATIGUE,
           k_confidence := Some (fl 0.8)\<rparr>)
      - emotion_fatigue_fl
        (empty_dict\<lparr>k_available := Some True,
           k_emotion := Some FATIGUE,
           k_confidence := Some (fl 0.8)\<rparr>)\<bar>
     \<le> 3 * \<bar>emotion_fatigue_fl
        (empty_dict\<lparr>k_available := Some True,
           k_emotion := Some FATIGUE,
           k_confidence := Some (fl 0.8)\<rparr>)\<bar> / 2 ^ 53
   \<and> \<bar>fuse_distraction_signals_fl multimodal_analyzer_init_fl
        empty_dict
        empty_dict (empty_dict\<lparr>k_available := Some True,
           k_distraction_score := Some (fl 0.4)\<rparr>) empty_dict
      - object_distraction
        (empty_dict\<lparr>k_available := Some True,
           k_distraction_score := Some (fl 0.4)\<rparr>)\<bar>
     \<le> 3 * \<bar>object_distraction
        (empty_dict\<lparr>k_available := Some True,
           k_distraction_score := Some (fl 0.4)\<rparr>)\<bar> / 2 ^ 53"
proof -
  note none_drowsiness =
    fusion_renormalization_rounded [where self = multimodal_analyzer_init_fl
      and fd = empty_dict
      and pd = empty_dict
      and ed = empty_dict,
      THEN conjunct1]
  note face_drowsiness =
    fusion_renormalization_rounded [where self = multimodal_analyzer_init_fl
      and fd = "empty_dict\<lparr>k_available := Some True,
        k_perclos := Some (fl 0.9),
        k_enhanced_ear := Some (fl 0.2),
        k_temporal_attention_score := Some (fl 0.1)\<rparr>"
      and pd = empty_dict
      and ed = empty_dict,
      THEN conjunct2, THEN conjunct1]
  note pose_drowsiness =
    fusion_renormalization_rounded [where self = multimodal_analyzer_init_fl
      and fd = empty_dict
      and pd = "empty_dict\<lparr>k_available := Some True,
        k_head_nod_score := Some (fl 0.6)\<rparr>"
      and ed = empty_dict,
      THEN conjunct2, THEN conjunct2, THEN conjunct1]
  note emotion_drowsiness =
    fusion_renormalization_rounded [where self = multimodal_analyzer_init_fl
      and fd = empty_dict
      and pd = empty_dict
      and ed = "empty_dict\<lparr>k_available := Some True,
        k_emotion := Some FATIGUE,
        k_confidence := Some (fl 0.8)\<rparr>",
      THEN conjunct2, THEN conjunct2, THEN conjunct2, THEN conjunct1]
  note none_distraction =
    fusion_renormalization_rounded [where self = multimodal_analyzer_init_fl
      and fd = empty_dict
      and hnd = empty_dict
      and obj = empty_dict
      and ed = empty_dict,
      THEN conjunct2, THEN conjunct2, THEN conjunct2, THEN conjunct2, THEN conjunct1]
  note face_distraction =
    fusion_renormalization_rounded [where self = multimodal_analyzer_init_fl
      and fd = "empty_dict\<lparr>k_available := Some True,
        k_gaze_deviation_score := Some (fl 0.2),
        k_attention_focus_score := Some (fl 0.8)\<rparr>"
      and hnd = empty_dict
      and obj = empty_dict
      and ed = empty_dict,
      THEN conjunct2, THEN conjunct2, THEN conjunct2, THEN conjunct2, THEN conjunct2, THEN conjunct1]
  note hand_distraction =
    fusion_renormalization_rounded [where self = multimodal_analyzer_init_fl
      and fd = empty_dict
      and hnd = "empty_dict\<lparr>k_available := Some True,
        k_hands_on_wheel_confidence := Some (fl 0.5)\<rparr>"
      and obj = empty_dict
      and ed = empty_dict,
      THEN conjunct2, THEN conjunct2, THEN conjunct2, THEN conjunct2, THEN conjunct2, THEN conjunct2, THEN conjunct1]
  note object_distraction =
    fusion_renormalization_rounded [where self = multimodal_analyzer_init_fl
      and fd = empty_dict
      and hnd = empty_dict
      and obj = "empty_dict\<lparr>k_available := Some True,
        k_distraction_score := Some (fl 0.4)\<rparr>"
      and ed = empty_dict,
      THEN conjunct2, THEN conjunct2, THEN conjunct2, THEN conjunct2, THEN conjunct2, THEN conjunct2, THEN conjunct2, THEN conjunct1]
  note emotion_distraction =
    fusion_renormalization_rounded [where self = multimodal_analyzer_init_fl
      and fd = empty_dict
      and hnd = empty_dict
      and obj = empty_dict
      and ed = "empty_dict\<lparr>k_available := Some True,
        k_emotion := Some ANGER,
        k_confidence := Some (fl 0.9)\<rparr>",
      THEN conjunct2, THEN conjunct2, THEN conjunct2, THEN conjunct2, THEN conjunct2, THEN conjunct2, THEN conjunct2, THEN conjunct2, THEN conjunct1]
  show ?thesis
    using none_drowsiness face_drowsiness pose_drowsiness emotion_drowsiness none_distraction
      face_distraction hand_distraction object_distraction emotion_distraction
    by (simp add: empty_dict_def truthy_def dget_def multimodal_analyzer_init_fl_def
      face_drowsiness_fl_def pose_drowsiness_def emotion_fatigue_fl_def face_distraction_fl_def
      hand_distraction_fl_def object_distraction_def emotion_distraction_def
      fuse_drowsiness_signals_fl_def fuse_distraction_signals_fl_def renormalized_def
      usable_weight_def usable_score_def fl_def ulp_def binade_numeral round_half_even_def Let_def)
qed









end
